theory Spec2Isabelle
  imports Complex_Main "HOL-Library.AList"
begin

section \<open>The asynchronous approval service (AsyncAuthService.ts)\<close>

text \<open>
  A shallow embedding of class \<open>Auth0CIBAService\<close>.
  \<^item> Timestamps (in milliseconds) and intervals (in seconds) are integers. The amount
    of a transfer is a \<open>number\<close>: a finite number, \<open>NaN\<close> or an infinity. An
    optional field (\<open>amount?: number\<close>) is an \<open>option\<close>.
  \<^item> The strings that the service receives are lists of 8-bit characters. The binding
    message, which also holds text that the runtime produces, is a list of UTF-16 code
    units.
  \<^item> The methods are functions from the state of the service to a result and the next
    state. What lies outside the service is a parameter: the answers of the external
    authority and the time they take, the ticking of the clock between two readings,
    and \<open>Number.prototype.toLocaleString\<close> of the runtime in the locale of the
    process.
  \<^item> One call runs at a time: nothing else touches the service while a call awaits.
\<close>

subsection \<open>Data model\<close>

datatype details_type = transfer | payroll_access | sensitive_operation

text \<open>A JavaScript number: a finite number, \<open>NaN\<close>, \<open>Infinity\<close> or \<open>-Infinity\<close>.\<close>

datatype number = Finite rat | NaN | Infinity | MinusInfinity

text \<open>A JavaScript string as the list of its UTF-16 code units.\<close>

type_synonym code_units = "nat list"

definition utf16 :: "string \<Rightarrow> code_units" where
  "utf16 s = map of_char s"

record details =
  type :: details_type
  description :: string
  amount :: "number option"
  fromAccount :: "string option"
  toAccount :: "string option"
  reason :: "string option"

text \<open>The \<open>status\<close> field of \<open>CIBARequest\<close> ranges over five string literals.\<close>

datatype status = pending | approved | denied | expired | timeout

record CIBARequest =
  authReqId :: string
  userId :: string
  userEmail :: "string option"
  operation :: string
  details :: details
  status :: status
  requestedAt :: int
  respondedAt :: "int option"
  expiresAt :: int
  bindingMessage :: "code_units option"
  interval :: "int option"

subsection \<open>JavaScript idioms\<close>

text \<open>\<open>x || d\<close> on an optional number: \<open>undefined\<close> and \<open>0\<close> are falsy.\<close>

fun num_or :: "'a::zero option \<Rightarrow> 'a \<Rightarrow> 'a" where
  "num_or None d = d"
| "num_or (Some x) d = (if x = 0 then d else x)"

text \<open>\<open>s || d\<close> on an optional string: \<open>undefined\<close> and the empty string are falsy.\<close>

fun str_or :: "'a list option \<Rightarrow> 'a list \<Rightarrow> 'a list" where
  "str_or None d = d"
| "str_or (Some s) d = (if s = [] then d else s)"

subsection \<open>Risk policy\<close>

text \<open>
  \<^verbatim>\<open>
  requiresApproval(operationType, details) {
    if (operationType === 'transfer') { return (details.amount || 0) > 50000; }
    if (operationType === 'sensitive_operation') { return true; }
    return false;
  }
  \<close>
  Only the \<open>amount\<close> field of the second argument is read, so the model takes it
  alone, as a finite number.
\<close>

definition requiresApproval :: "string \<Rightarrow> rat option \<Rightarrow> bool" where
  "requiresApproval operationType amt =
     (if operationType = ''transfer'' then num_or amt 0 > 50000
      else if operationType = ''sensitive_operation'' then True
      else False)"

subsection \<open>Numbers as text\<close>

definition digit_char :: "nat \<Rightarrow> char" where
  "digit_char d = ''0123456789'' ! d"

function decimal :: "nat \<Rightarrow> string" where
  "decimal n = (if n < 10 then [digit_char n]
                else decimal (n div 10) @ [digit_char (n mod 10)])"
  by pat_completeness auto
termination
  by (relation "measure id") auto

declare decimal.simps [simp del]

text \<open>A number inside a template literal, as in \<^verbatim>\<open>`SIMULATED-${Date.now()}`\<close>.\<close>

definition number_text :: "int \<Rightarrow> string" where
  "number_text n = (if n < 0 then CHR ''-'' # decimal (nat (- n)) else decimal (nat n))"

text \<open>
  \<open>Number.prototype.toLocaleString()\<close> belongs to the runtime and depends on the
  locale of the process, so the service takes it from its environment. \<open>en_US\<close> is a
  sample of it, after V8 in the \<open>en-US\<close> locale: \<open>NaN\<close> for \<open>NaN\<close>, the sign
  U+221E (code unit 8734) for \<open>Infinity\<close>, and for a finite number the \<open>en-US\<close>
  format of its value: rounded to three fraction digits, the integer digits in groups of
  three separated by commas, after a minus sign when the number is negative, and then
  the fraction digits after a point, without trailing zeros. This is V8's text for the
  whole numbers below \<open>2^53\<close> in magnitude and for the numbers that are not finite,
  which is where it is used below. \<open>group3\<close> works on the digits least significant
  first; \<open>fraction_digits\<close> takes the thousandths, below 1000.
\<close>

fun group3 :: "string \<Rightarrow> string" where
  "group3 (a # b # c # d # ds) = a # b # c # CHR '','' # group3 (d # ds)"
| "group3 ds = ds"

definition fraction_digits :: "nat \<Rightarrow> string" where
  "fraction_digits f =
     (if f mod 10 \<noteq> 0 then
        [digit_char (f div 100), digit_char (f div 10 mod 10), digit_char (f mod 10)]
      else if f mod 100 \<noteq> 0 then [digit_char (f div 100), digit_char (f div 10 mod 10)]
      else [digit_char (f div 100)])"

definition en_US_finite :: "rat \<Rightarrow> string" where
  "en_US_finite x =
     (let thousandths = nat \<lfloor>\<bar>x\<bar> * 1000 + 1 / 2\<rfloor>;
          whole = thousandths div 1000;
          fraction = thousandths mod 1000
      in (if x < 0 then [CHR ''-''] else [])
         @ rev (group3 (rev (decimal whole)))
         @ (if fraction = 0 then [] else CHR ''.'' # fraction_digits fraction))"

fun en_US :: "number \<Rightarrow> code_units" where
  "en_US (Finite x) = utf16 (en_US_finite x)"
| "en_US NaN = utf16 ''NaN''"
| "en_US Infinity = [8734]"
| "en_US MinusInfinity = [45, 8734]"

subsection \<open>Binding message\<close>

definition is_letter :: "char \<Rightarrow> bool" where
  "is_letter c = (let n = (of_char c :: nat) in (65 \<le> n \<and> n \<le> 90) \<or> (97 \<le> n \<and> n \<le> 122))"

definition is_digit :: "char \<Rightarrow> bool" where
  "is_digit c = (let n = (of_char c :: nat) in 48 \<le> n \<and> n \<le> 57)"

text \<open>
  The characters in the 8-bit range that the regular expression class \<open>\s\<close> matches:
  tab, line feed, vertical tab, form feed, carriage return, space and no-break space.
\<close>

definition is_whitespace :: "char \<Rightarrow> bool" where
  "is_whitespace c = ((of_char c :: nat) \<in> {9, 10, 11, 12, 13, 32, 160})"

text \<open>The class \<open>\w\<close> is \<open>[A-Za-z0-9_]\<close>.\<close>

definition word_char :: "char \<Rightarrow> bool" where
  "word_char c = (is_letter c \<or> is_digit c \<or> c = CHR ''_'')"

text \<open>
  \<^verbatim>\<open>const sanitize = (text: string) => text.replace(/[^\w\s+\-_.,:#]/g, '');\<close>
  Every character outside the class is deleted.
\<close>

definition sanitize :: "string \<Rightarrow> string" where
  "sanitize text =
     filter (\<lambda>c. word_char c \<or> is_whitespace c \<or> c = CHR ''+'' \<or> c = CHR ''-'' \<or> c = CHR ''_''
                 \<or> c = CHR ''.'' \<or> c = CHR '','' \<or> c = CHR '':'' \<or> c = CHR ''#'') text"

text \<open>
  \<^verbatim>\<open>
  private createBindingMessage(operation, details) {
    if (details.type === 'transfer') {
      const amount = details.amount?.toLocaleString() || '0';
      const toAccount = sanitize(details.toAccount || 'unknown');
      return `Approve transfer of ${amount} USD to ${toAccount}`;
    }
    const sanitized = sanitize(details.description);
    return `Approve ${sanitize(operation)}: ${sanitized}`;
  }
  \<close>
\<close>

text \<open>
  The amount text comes from the runtime, \<open>render\<close>, and goes into the message as it
  is; the other parts go through \<open>sanitize\<close>.
\<close>

definition createBindingMessage ::
  "(number \<Rightarrow> code_units) \<Rightarrow> string \<Rightarrow> details \<Rightarrow> code_units" where
  "createBindingMessage render op d =
     (if type d = transfer then
        let amount = str_or (map_option render (amount d)) (utf16 ''0'');
            toAccount = sanitize (str_or (toAccount d) ''unknown'')
        in utf16 ''Approve transfer of '' @ amount @ utf16 '' USD to '' @ utf16 toAccount
      else
        let sanitized = sanitize (description d)
        in utf16 ''Approve '' @ utf16 (sanitize op) @ utf16 '': '' @ utf16 sanitized)"

text \<open>
  The character set the approval transport accepts, as the specification words it:
  letters, digits, whitespace and the characters \<open>+-_.,:#\<close>. On code units: the
  letters \<open>A-Z\<close> and \<open>a-z\<close>, the digits \<open>0-9\<close>, the white space of the class
  \<open>\s\<close>, and the seven characters.
\<close>

definition permitted :: "nat \<Rightarrow> bool" where
  "permitted u =
     ((65 \<le> u \<and> u \<le> 90) \<or> (97 \<le> u \<and> u \<le> 122)
      \<or> (48 \<le> u \<and> u \<le> 57)
      \<or> u \<in> {9, 10, 11, 12, 13, 32, 160, 5760, 8232, 8233, 8239, 8287, 12288, 65279}
      \<or> (8192 \<le> u \<and> u \<le> 8202)
      \<or> u \<in> set (utf16 ''+-_.,:#''))"

subsection \<open>The service's state and its environment\<close>

text \<open>
  What the external authority answers. \<open>axios.post\<close> either resolves with a response
  body or throws; for the token endpoint the \<open>catch\<close> block reads
  \<open>error.response?.data?.error\<close>, which is absent for a network failure.
\<close>

record bc_authorize_data =
  auth_req_id :: string
  expires_in :: "int option"
  poll_interval :: "int option" \<comment> \<open>the key \<open>interval\<close> of the response body\<close>

datatype token_reply =
  token_granted \<comment> \<open>a response whose \<open>access_token\<close> is truthy\<close>
| token_absent \<comment> \<open>a response without \<open>access_token\<close>\<close>
| token_error "string option" \<comment> \<open>a thrown error and its error code, if any\<close>

text \<open>
  The environment is an oracle. The authority: the answer to the \<open>k\<close>-th HTTP request
  the service sends and the milliseconds that request takes; \<open>None\<close> from
  \<open>bc_authorize\<close> is a throw. The clock: \<open>initiateCIBARequest\<close> reads it up to
  three times in a row after the \<open>k\<close>-th HTTP request, and \<open>clock_ticks k\<close> gives
  the milliseconds that pass between the first and the second reading and between the
  second and the third. The runtime: \<open>toLocaleString\<close>.
\<close>

record environment =
  bc_authorize :: "nat \<Rightarrow> bc_authorize_data option \<times> nat"
  oauth_token :: "nat \<Rightarrow> token_reply \<times> nat"
  clock_ticks :: "nat \<Rightarrow> nat \<times> nat"
  toLocaleString :: "number \<Rightarrow> code_units"

text \<open>
  The service instance with what it observes: the \<open>pendingRequests\<close> map in insertion
  order, the wall clock \<open>Date.now()\<close> in milliseconds, the number of HTTP requests
  sent so far, and the results of the \<open>pollCIBAResult\<close> calls so far, latest first.
  The clock advances while the service awaits, and between the readings that
  \<open>initiateCIBARequest\<close> takes in a row; each of the other methods reads it once per
  synchronous stretch.
\<close>

record world =
  pendingRequests :: "(string \<times> CIBARequest) list"
  clock :: int
  http_sent :: nat
  poll_log :: "status list"

definition await_http :: "nat \<Rightarrow> world \<Rightarrow> world" where
  "await_http latency w = w\<lparr>clock := clock w + int latency, http_sent := Suc (http_sent w)\<rparr>"

definition store_set :: "string \<Rightarrow> CIBARequest \<Rightarrow> world \<Rightarrow> world" where
  "store_set k r w = w\<lparr>pendingRequests := AList.update k r (pendingRequests w)\<rparr>"

definition store_get :: "world \<Rightarrow> string \<Rightarrow> CIBARequest option" where
  "store_get w k = map_of (pendingRequests w) k"

definition startsWith :: "string \<Rightarrow> string \<Rightarrow> bool" where
  "startsWith s p = (take (length p) s = p)"

subsection \<open>initiateCIBARequest\<close>

text \<open>
  The binding message is built first; then the request to \<open>/bc-authorize\<close> is awaited.
  On a response the request is stored under the authority's id with
  \<open>expires_in || 300\<close> and \<open>interval || 5\<close>:
  \<^verbatim>\<open>
  requestedAt: new Date(),
  expiresAt: new Date(Date.now() + expiresIn * 1000),
  \<close>
  On a throw the \<open>catch\<close> block stores a simulated request without an interval:
  \<^verbatim>\<open>
  const authReqId = `SIMULATED-${Date.now()}`;
  const request = { authReqId, ..., status: 'pending',
    requestedAt: new Date(),
    expiresAt: new Date(Date.now() + 300000), bindingMessage };
  \<close>
  Each \<open>Date.now()\<close> and \<open>new Date()\<close> is a reading of the clock of its own.
\<close>

definition tick :: "nat \<Rightarrow> world \<Rightarrow> world" where
  "tick ms w = w\<lparr>clock := clock w + int ms\<rparr>"

definition initiateCIBARequest ::
  "environment \<Rightarrow> string \<Rightarrow> string \<Rightarrow> string \<Rightarrow> details \<Rightarrow> world
     \<Rightarrow> CIBARequest \<times> world" where
  "initiateCIBARequest au uid email op d w =
     (let message = createBindingMessage (toLocaleString au) op d;
          (reply, latency) = bc_authorize au (http_sent w);
          (first_tick, second_tick) = clock_ticks au (http_sent w);
          w1 = await_http latency w
      in case reply of
           Some data \<Rightarrow>
             let expiresIn = num_or (expires_in data) 300;
                 w2 = tick first_tick w1;
                 request = \<lparr>authReqId = auth_req_id data, userId = uid, userEmail = Some email,
                            operation = op, details = d, status = pending,
                            requestedAt = clock w1, respondedAt = None,
                            expiresAt = clock w2 + expiresIn * 1000,
                            bindingMessage = Some message,
                            interval = Some (num_or (poll_interval data) 5)\<rparr>
             in (request, store_set (auth_req_id data) request w2)
         | None \<Rightarrow>
             let w2 = tick first_tick w1;
                 w3 = tick second_tick w2;
                 request = \<lparr>authReqId = ''SIMULATED-'' @ number_text (clock w1), userId = uid,
                            userEmail = Some email, operation = op, details = d,
                            status = pending, requestedAt = clock w2, respondedAt = None,
                            expiresAt = clock w3 + 300000,
                            bindingMessage = Some message, interval = None\<rparr>
             in (request, store_set (authReqId request) request w3))"

subsection \<open>pollCIBAResult\<close>

text \<open>
  The \<open>catch\<close> block of the poll, by error code:
  \<^verbatim>\<open>
  if (errorCode === 'authorization_pending') return 'pending';
  if (errorCode === 'slow_down') {
    const currentInterval = request.interval || 5;
    request.interval = currentInterval + 5;
    this.pendingRequests.set(authReqId, request);
    return 'pending';
  }
  if (errorCode === 'access_denied') {
    request.status = 'denied'; request.respondedAt = new Date();
    this.pendingRequests.set(authReqId, request); return 'denied';
  }
  if (errorCode === 'expired_token') {
    request.status = 'expired';
    this.pendingRequests.set(authReqId, request); return 'expired';
  }
  return 'pending';
  \<close>
\<close>

definition poll_failed ::
  "string option \<Rightarrow> string \<Rightarrow> CIBARequest \<Rightarrow> world \<Rightarrow> status \<times> world" where
  "poll_failed errorCode k request w =
     (if errorCode = Some ''authorization_pending'' then (pending, w)
      else if errorCode = Some ''slow_down'' then
        let currentInterval = num_or (interval request) 5
        in (pending, store_set k (request\<lparr>interval := Some (currentInterval + 5)\<rparr>) w)
      else if errorCode = Some ''access_denied'' then
        (denied, store_set k (request\<lparr>status := denied, respondedAt := Some (clock w)\<rparr>) w)
      else if errorCode = Some ''expired_token'' then
        (expired, store_set k (request\<lparr>status := expired\<rparr>) w)
      else (pending, w))"

text \<open>
  \<^verbatim>\<open>
  const request = this.pendingRequests.get(authReqId);
  if (!request) return 'expired';
  if (new Date() > request.expiresAt) {
    request.status = 'expired';
    this.pendingRequests.set(authReqId, request);
    return 'expired';
  }
  if (authReqId.startsWith('SIMULATED-'))
    return request.status === 'pending' ? 'pending' : request.status;
  try {
    const response = await axios.post(...);
    if (response.data.access_token) {
      request.status = 'approved'; request.respondedAt = new Date();
      this.pendingRequests.set(authReqId, request); return 'approved';
    }
    return 'pending';
  } catch (error) { ... }
  \<close>
\<close>

fun poll_answered :: "token_reply \<Rightarrow> string \<Rightarrow> CIBARequest \<Rightarrow> world \<Rightarrow> status \<times> world" where
  "poll_answered token_granted k request w =
     (approved, store_set k (request\<lparr>status := approved, respondedAt := Some (clock w)\<rparr>) w)"
| "poll_answered token_absent k request w = (pending, w)"
| "poll_answered (token_error errorCode) k request w = poll_failed errorCode k request w"

definition poll_request :: "environment \<Rightarrow> string \<Rightarrow> world \<Rightarrow> status \<times> world" where
  "poll_request au k w =
     (case store_get w k of
        None \<Rightarrow> (expired, w)
      | Some request \<Rightarrow>
          if clock w > expiresAt request then
            (expired, store_set k (request\<lparr>status := expired\<rparr>) w)
          else if startsWith k ''SIMULATED-'' then
            (if status request = pending then pending else status request, w)
          else
            let (reply, latency) = oauth_token au (http_sent w)
            in poll_answered reply k request (await_http latency w))"

text \<open>Every call and its result is recorded in \<open>poll_log\<close>.\<close>

definition pollCIBAResult :: "environment \<Rightarrow> string \<Rightarrow> world \<Rightarrow> status \<times> world" where
  "pollCIBAResult au k w =
     (let (result, w') = poll_request au k w
      in (result, w'\<lparr>poll_log := result # poll_log w'\<rparr>))"

subsection \<open>Manual override and queries\<close>

definition approveRequest :: "string \<Rightarrow> world \<Rightarrow> bool \<times> world" where
  "approveRequest k w =
     (case store_get w k of
        None \<Rightarrow> (False, w)
      | Some request \<Rightarrow>
          if status request \<noteq> pending then (False, w)
          else (True, store_set k (request\<lparr>status := approved, respondedAt := Some (clock w)\<rparr>) w))"

definition denyRequest :: "string \<Rightarrow> world \<Rightarrow> bool \<times> world" where
  "denyRequest k w =
     (case store_get w k of
        None \<Rightarrow> (False, w)
      | Some request \<Rightarrow>
          if status request \<noteq> pending then (False, w)
          else (True, store_set k (request\<lparr>status := denied, respondedAt := Some (clock w)\<rparr>) w))"

definition getRequest :: "string \<Rightarrow> world \<Rightarrow> CIBARequest option" where
  "getRequest k w = store_get w k"

text \<open>
  \<open>getPendingRequestsForUser\<close> walks the map in insertion order. A pending request of
  the user that is past its deadline is marked expired where it is stored (every request
  is stored under its own \<open>authReqId\<close>, so the \<open>set\<close> writes it back in place); the
  others that are pending are returned.
\<close>

fun sweep :: "string \<Rightarrow> int \<Rightarrow> (string \<times> CIBARequest) list
    \<Rightarrow> (string \<times> CIBARequest) list \<times> CIBARequest list" where
  "sweep uid now [] = ([], [])"
| "sweep uid now ((k, request) # rest) =
     (let (rest', found) = sweep uid now rest
      in if userId request = uid \<and> status request = pending then
           if now > expiresAt request then ((k, request\<lparr>status := expired\<rparr>) # rest', found)
           else ((k, request) # rest', request # found)
         else ((k, request) # rest', found))"

definition getPendingRequestsForUser :: "string \<Rightarrow> world \<Rightarrow> CIBARequest list \<times> world" where
  "getPendingRequestsForUser uid w =
     (let (store', found) = sweep uid (clock w) (pendingRequests w)
      in (found, w\<lparr>pendingRequests := store'\<rparr>))"

subsection \<open>waitForApproval\<close>

text \<open>
  \<open>setTimeout(resolve, ms)\<close> in Node.js: a delay below 1 or above 2147483647 is set
  to 1, so every sleep lets at least one millisecond pass.
\<close>

definition timer_delay :: "int \<Rightarrow> int" where
  "timer_delay ms = (if ms < 1 \<or> 2147483647 < ms then 1 else ms)"

definition sleep :: "int \<Rightarrow> world \<Rightarrow> world" where
  "sleep ms w = w\<lparr>clock := clock w + timer_delay ms\<rparr>"

datatype wait_result = wait_approved | wait_denied | wait_timeout | wait_expired

text \<open>
  \<^verbatim>\<open>
  const updatedRequest = this.pendingRequests.get(authReqId);
  if (updatedRequest?.interval && updatedRequest.interval * 1000 > pollIntervalMs)
    pollIntervalMs = updatedRequest.interval * 1000;
  \<close>
\<close>

definition next_interval :: "world \<Rightarrow> string \<Rightarrow> int \<Rightarrow> int" where
  "next_interval w k pollIntervalMs =
     (case store_get w k of
        None \<Rightarrow> pollIntervalMs
      | Some updatedRequest \<Rightarrow>
          (case interval updatedRequest of
             None \<Rightarrow> pollIntervalMs
           | Some i \<Rightarrow> if i \<noteq> 0 \<and> i * 1000 > pollIntervalMs then i * 1000 else pollIntervalMs))"

text \<open>
  The loop of \<open>waitForApproval\<close>:
  \<^verbatim>\<open>
  while (Date.now() - startTime < maxWaitMs) {
    const result = await this.pollCIBAResult(authReqId);
    if (result === 'approved') return 'approved';
    if (result === 'denied') return 'denied';
    if (result === 'expired') return 'expired';
    ... adopt a larger interval ...
    await new Promise((resolve) => setTimeout(resolve, pollIntervalMs));
  }
  return 'timeout';
  \<close>
\<close>

function wait_loop ::
  "environment \<Rightarrow> string \<Rightarrow> int \<Rightarrow> int \<Rightarrow> int \<Rightarrow> world \<Rightarrow> wait_result \<times> world" where
  "wait_loop au k startTime maxWaitMs pollIntervalMs w =
     (if clock w - startTime < maxWaitMs then
        (case pollCIBAResult au k w of
           (approved, w1) \<Rightarrow> (wait_approved, w1)
         | (denied, w1) \<Rightarrow> (wait_denied, w1)
         | (expired, w1) \<Rightarrow> (wait_expired, w1)
         | (_, w1) \<Rightarrow>
             let pollIntervalMs' = next_interval w1 k pollIntervalMs
             in wait_loop au k startTime maxWaitMs pollIntervalMs' (sleep pollIntervalMs' w1))
      else (wait_timeout, w))"
  by pat_completeness auto
termination
proof -
  have answered: "clock (snd (poll_answered reply k request w)) = clock w"
    for reply k request w
    by (cases reply) (simp_all add: poll_failed_def store_set_def Let_def)
  have request: "clock w \<le> clock (snd (poll_request au k w))" for au k w
    by (auto simp: poll_request_def answered store_set_def await_http_def
        split: option.splits prod.splits)
  have mono: "clock w \<le> clock (snd (pollCIBAResult au k w))" for au k w
    using request [of w au k]
    by (cases "poll_request au k w") (simp add: pollCIBAResult_def)
  have later: "clock w < clock (sleep ms w1)"
    if "(result, w1) = pollCIBAResult au k w" for au k w result w1 ms
  proof -
    have "snd (pollCIBAResult au k w) = w1"
      using that by (metis snd_conv)
    then have "clock w \<le> clock w1"
      using mono [of w au k] by simp
    moreover have "0 < timer_delay ms"
      by (simp add: timer_delay_def)
    ultimately show ?thesis
      by (simp add: sleep_def)
  qed
  show ?thesis
    by (relation "measure (\<lambda>(au, k, startTime, maxWaitMs, pollIntervalMs, w).
                    nat (maxWaitMs - (clock w - startTime)))")
      (auto dest: later)
qed

declare wait_loop.simps [simp del]

text \<open>
  \<^verbatim>\<open>
  async waitForApproval(authReqId, maxWaitMs = 120000) {
    const startTime = Date.now();
    const request = this.pendingRequests.get(authReqId);
    let pollIntervalMs = (request?.interval || 5) * 1000;
    while ...
  \<close>
\<close>

definition waitForApproval ::
  "environment \<Rightarrow> string \<Rightarrow> int option \<Rightarrow> world \<Rightarrow> wait_result \<times> world" where
  "waitForApproval au k maxWaitMs w =
     (let startTime = clock w;
          request = store_get w k;
          pollIntervalMs = num_or (case request of None \<Rightarrow> None | Some r \<Rightarrow> interval r) 5 * 1000
      in wait_loop au k startTime (case maxWaitMs of None \<Rightarrow> 120000 | Some m \<Rightarrow> m)
           pollIntervalMs w)"

text \<open>
  \<open>slow_down_received au k w\<close>: a poll of \<open>k\<close> in \<open>w\<close> reaches the token
  endpoint, and the authority answers it with the error code \<open>slow_down\<close>.
\<close>

definition slow_down_received :: "environment \<Rightarrow> string \<Rightarrow> world \<Rightarrow> bool" where
  "slow_down_received au k w =
     (case store_get w k of
        None \<Rightarrow> False
      | Some request \<Rightarrow>
          \<not> clock w > expiresAt request \<and> \<not> startsWith k ''SIMULATED-''
          \<and> fst (oauth_token au (http_sent w)) = token_error (Some ''slow_down''))"

subsection \<open>The response timestamp\<close>

text \<open>
  The relation between \<open>status\<close> and \<open>respondedAt\<close> as the specification states
  it: the timestamp is set if and only if the status is not \<open>pending\<close>.
\<close>

definition responded_iff_resolved :: "CIBARequest \<Rightarrow> bool" where
  "responded_iff_resolved r = ((respondedAt r \<noteq> None) = (status r \<noteq> pending))"

text \<open>
  The relation that the service maintains: no timestamp while \<open>pending\<close>, a timestamp
  once \<open>approved\<close> or \<open>denied\<close>.
\<close>

definition responded_ok :: "CIBARequest \<Rightarrow> bool" where
  "responded_ok r =
     ((status r = pending \<longrightarrow> respondedAt r = None)
      \<and> (status r = approved \<or> status r = denied \<longrightarrow> respondedAt r \<noteq> None))"

definition store_ok :: "world \<Rightarrow> bool" where
  "store_ok w = list_all (\<lambda>(k, r). responded_ok r) (pendingRequests w)"

subsection \<open>Sequences of calls\<close>

text \<open>
  The service is a singleton that the agent tool and the approval routes call in any
  order while time passes. An \<open>action\<close> is one such call, or time passing between
  calls; \<open>run\<close> performs a list of them from left to right.
\<close>

datatype action =
  Initiate string string string details
| Poll string
| Approve string
| Deny string
| ListPending string
| Wait string "int option"
| Elapse nat

fun perform :: "environment \<Rightarrow> action \<Rightarrow> world \<Rightarrow> world" where
  "perform au (Initiate uid email op d) w = snd (initiateCIBARequest au uid email op d w)"
| "perform au (Poll k) w = snd (pollCIBAResult au k w)"
| "perform au (Approve k) w = snd (approveRequest k w)"
| "perform au (Deny k) w = snd (denyRequest k w)"
| "perform au (ListPending uid) w = snd (getPendingRequestsForUser uid w)"
| "perform au (Wait k maxWaitMs) w = snd (waitForApproval au k maxWaitMs w)"
| "perform au (Elapse ms) w = w\<lparr>clock := clock w + int ms\<rparr>"

fun run :: "environment \<Rightarrow> action list \<Rightarrow> world \<Rightarrow> world" where
  "run au [] w = w"
| "run au (a # as) w = run au as (perform au a w)"

text \<open>A service that has just been constructed, at time \<open>now\<close>.\<close>

definition fresh :: "int \<Rightarrow> world" where
  "fresh now = \<lparr>pendingRequests = [], clock = now, http_sent = 0, poll_log = []\<rparr>"

subsection \<open>Sample data\<close>

text \<open>The transfer that the agent tool builds for "transfer $75,000 to ACC999".\<close>

definition demo_details :: details where
  "demo_details =
     \<lparr>type = transfer, description = ''Transfer $75,000 from ACC001 to ACC999'',
      amount = Some (Finite 75000), fromAccount = Some ''ACC001'',
      toAccount = Some ''ACC999'', reason = None\<rparr>"

definition demo_request :: "string \<Rightarrow> status \<Rightarrow> int \<Rightarrow> CIBARequest" where
  "demo_request k s deadline =
     \<lparr>authReqId = k, userId = ''auth0|alice'', userEmail = Some ''alice@demo.local'',
      operation = ''Transfer $75,000'', details = demo_details, status = s,
      requestedAt = 0, respondedAt = None, expiresAt = deadline,
      bindingMessage = Some (utf16 ''Approve transfer of 75,000 USD to ACC999''),
      interval = Some 5\<rparr>"

text \<open>A service that holds one request, at time \<open>now\<close>.\<close>

definition holding :: "CIBARequest \<Rightarrow> int \<Rightarrow> world" where
  "holding r now =
     \<lparr>pendingRequests = [(authReqId r, r)], clock = now, http_sent = 0, poll_log = []\<rparr>"

definition demo_initiate :: action where
  "demo_initiate = Initiate ''auth0|alice'' ''alice@demo.local'' ''Transfer $75,000'' demo_details"

text \<open>
  An authority that cannot be reached for \<open>/bc-authorize\<close>, and one that accepts the
  request as \<open>req-1\<close> with the default lifetime and interval. The token endpoint of
  both answers at once, the \<open>n\<close>-th HTTP request with \<open>replies n\<close>. In both
  environments the clock does not tick between readings and the locale is \<open>en-US\<close>.
\<close>

definition unreachable :: "(nat \<Rightarrow> token_reply) \<Rightarrow> environment" where
  "unreachable replies =
     \<lparr>bc_authorize = (\<lambda>n. (None, 0)), oauth_token = (\<lambda>n. (replies n, 0)),
      clock_ticks = (\<lambda>n. (0, 0)), toLocaleString = en_US\<rparr>"

definition accepting :: "(nat \<Rightarrow> token_reply) \<Rightarrow> environment" where
  "accepting replies =
     \<lparr>bc_authorize =
        (\<lambda>n. (Some \<lparr>auth_req_id = ''req-1'', expires_in = None, poll_interval = None\<rparr>, 0)),
      oauth_token = (\<lambda>n. (replies n, 0)),
      clock_ticks = (\<lambda>n. (0, 0)), toLocaleString = en_US\<rparr>"

text \<open>
  The unreachable authority again, with a clock that advances by one millisecond
  between the reading for \<open>requestedAt\<close> and the reading for \<open>expiresAt\<close>.
\<close>

definition unreachable_ticking :: environment where
  "unreachable_ticking = (unreachable (\<lambda>n. token_granted))\<lparr>clock_ticks := (\<lambda>n. (0, 1))\<rparr>"

text \<open>
  The congestion scenario: the authority has accepted the request, answers the first two
  polls with \<open>slow_down\<close>, the third with \<open>authorization_pending\<close>, and then
  grants the token.
\<close>

definition congested :: environment where
  "congested =
     accepting (\<lambda>n. if n < 2 then token_error (Some ''slow_down'')
                    else if n = 2 then token_error (Some ''authorization_pending'')
                    else token_granted)"

section \<open>Properties\<close>

subsection \<open>The store\<close>

lemma store_get_store_set [simp]:
  "store_get (store_set k r w) k' = (if k' = k then Some r else store_get w k')"
  by (simp add: store_get_def store_set_def update_conv')

lemma store_set_fields [simp]:
  "clock (store_set k r w) = clock w"
  "http_sent (store_set k r w) = http_sent w"
  "poll_log (store_set k r w) = poll_log w"
  by (simp_all add: store_set_def)

lemma store_get_frame [simp]:
  "store_get (w\<lparr>poll_log := l\<rparr>) k = store_get w k"
  "store_get (w\<lparr>clock := t\<rparr>) k = store_get w k"
  "store_get (await_http latency w) k = store_get w k"
  "store_get (sleep ms w) k = store_get w k"
  "store_get (tick n w) k = store_get w k"
  by (simp_all add: store_get_def await_http_def sleep_def tick_def)

lemma store_get_fresh [simp]: "store_get (fresh now) k = None"
  by (simp add: store_get_def fresh_def)

subsection \<open>Risk policy\<close>

text \<open>
  C5. \<open>requiresApproval\<close> is a total function of its arguments. For kind
  \<open>transfer\<close> it is true exactly when an amount is given and exceeds 50000 (so it is
  false at 50000 and true at 50001); for kind \<open>sensitive_operation\<close> it is true; for
  every other kind it is false.
\<close>

theorem requiresApproval_policy:
  "requiresApproval ''transfer'' amt = (\<exists>a. amt = Some a \<and> 50000 < a)
   \<and> \<not> requiresApproval ''transfer'' (Some 50000)
   \<and> requiresApproval ''transfer'' (Some 50001)
   \<and> requiresApproval ''sensitive_operation'' amt
   \<and> (kind \<noteq> ''transfer'' \<and> kind \<noteq> ''sensitive_operation''
        \<longrightarrow> \<not> requiresApproval kind amt)"
  by (cases amt) (auto simp: requiresApproval_def)

theorem requiresApproval_policy_witness:
  "requiresApproval ''transfer'' (Some 75000)
   \<and> ''payroll_access'' \<noteq> ''transfer'' \<and> ''payroll_access'' \<noteq> ''sensitive_operation''
   \<and> \<not> requiresApproval ''payroll_access'' (Some 75000)"
  using requiresApproval_policy [of "Some 75000" "''payroll_access''"] by simp

subsection \<open>Binding message\<close>

lemma is_digit_digit_char: "d < 10 \<Longrightarrow> is_digit (digit_char d)"
proof -
  assume "d < 10"
  then have "d = 0 \<or> d = 1 \<or> d = 2 \<or> d = 3 \<or> d = 4 \<or> d = 5 \<or> d = 6 \<or> d = 7 \<or> d = 8 \<or> d = 9"
    by arith
  then show ?thesis
    by (auto simp: digit_char_def is_digit_def)
qed

lemma decimal_digits: "c \<in> set (decimal n) \<Longrightarrow> is_digit c"
proof (induction n arbitrary: c rule: decimal.induct)
  case (1 n)
  show ?case
  proof (cases "n < 10")
    case True
    with "1.prems" show ?thesis
      by (simp add: decimal.simps [of n] is_digit_digit_char)
  next
    case False
    with "1.prems" have "c \<in> set (decimal (n div 10)) \<or> c = digit_char (n mod 10)"
      by (auto simp: decimal.simps [of n])
    then show ?thesis
      using "1.IH" [OF False] by (auto simp: is_digit_digit_char)
  qed
qed

lemma group3_chars: "c \<in> set (group3 ds) \<Longrightarrow> c \<in> set ds \<or> c = CHR '',''"
  by (induction ds rule: group3.induct) auto

lemma fraction_digits_chars: "f < 1000 \<Longrightarrow> c \<in> set (fraction_digits f) \<Longrightarrow> is_digit c"
proof -
  assume f: "f < 1000" and c: "c \<in> set (fraction_digits f)"
  from f have "f div 100 < 10" and "f div 10 mod 10 < 10" and "f mod 10 < 10"
    by simp_all
  then have "is_digit (digit_char (f div 100))" and "is_digit (digit_char (f div 10 mod 10))"
      and "is_digit (digit_char (f mod 10))"
    by (simp_all add: is_digit_digit_char)
  with c show ?thesis
    by (auto simp: fraction_digits_def split: if_splits)
qed

lemma en_US_finite_chars:
  "c \<in> set (en_US_finite x) \<Longrightarrow> is_digit c \<or> c = CHR ''-'' \<or> c = CHR '','' \<or> c = CHR ''.''"
proof -
  let ?t = "nat \<lfloor>\<bar>x\<bar> * 1000 + 1 / 2\<rfloor>"
  assume "c \<in> set (en_US_finite x)"
  then have "c = CHR ''-'' \<or> c \<in> set (group3 (rev (decimal (?t div 1000))))
      \<or> c = CHR ''.'' \<or> c \<in> set (fraction_digits (?t mod 1000))"
    by (auto simp: en_US_finite_def Let_def split: if_splits)
  then have "c = CHR ''-'' \<or> c = CHR '','' \<or> c = CHR ''.''
      \<or> c \<in> set (decimal (?t div 1000)) \<or> c \<in> set (fraction_digits (?t mod 1000))"
    using group3_chars [of c "rev (decimal (?t div 1000))"] by auto
  moreover have "?t mod 1000 < 1000"
    by simp
  ultimately show ?thesis
    using decimal_digits [of c "?t div 1000"] fraction_digits_chars [of "?t mod 1000" c]
    by auto
qed

lemma permitted_punctuation:
  "permitted (of_char CHR ''+'')" "permitted (of_char CHR ''-'')" "permitted (of_char CHR ''_'')"
  "permitted (of_char CHR ''.'')" "permitted (of_char CHR '','')" "permitted (of_char CHR '':'')"
  "permitted (of_char CHR ''#'')"
  by (simp_all add: permitted_def utf16_def)

lemma permitted_classes:
  "is_letter c \<Longrightarrow> permitted (of_char c)"
  "is_digit c \<Longrightarrow> permitted (of_char c)"
  "is_whitespace c \<Longrightarrow> permitted (of_char c)"
  by (auto simp: permitted_def is_letter_def is_digit_def is_whitespace_def Let_def)

lemma permitted_sanitize: "list_all permitted (utf16 (sanitize s))"
  by (auto simp: list_all_iff utf16_def sanitize_def word_char_def
      intro: permitted_classes permitted_punctuation)

lemma permitted_en_US_finite: "list_all permitted (utf16 (en_US_finite x))"
  by (auto simp: list_all_iff utf16_def dest!: en_US_finite_chars
      intro: permitted_classes permitted_punctuation)

lemma permitted_fixed_text:
  "list_all permitted (utf16 ''Approve transfer of '')"
  "list_all permitted (utf16 '' USD to '')"
  "list_all permitted (utf16 ''Approve '')"
  "list_all permitted (utf16 '': '')"
  "list_all permitted (utf16 ''0'')"
  by (simp_all add: permitted_def utf16_def)

text \<open>
  Everything in the message but the amount text is permitted: a message that is not for
  a transfer always is, and a message for a transfer is when the runtime's text for the
  amount is.
\<close>

lemma createBindingMessage_permitted_but_amount:
  assumes "type d = transfer \<longrightarrow> (\<forall>a. amount d = Some a \<longrightarrow> list_all permitted (render a))"
  shows "list_all permitted (createBindingMessage render op d)"
proof (cases "type d = transfer")
  case False
  then show ?thesis
    by (simp add: createBindingMessage_def Let_def permitted_fixed_text permitted_sanitize)
next
  case True
  with assms have "list_all permitted (str_or (map_option render (amount d)) (utf16 ''0''))"
    by (cases "amount d") (simp_all add: permitted_fixed_text)
  with True show ?thesis
    by (simp add: createBindingMessage_def Let_def permitted_fixed_text permitted_sanitize)
qed

lemma createBindingMessage_finite_en_US:
  assumes "amount d = None \<or> (\<exists>x. amount d = Some (Finite x))"
  shows "list_all permitted (createBindingMessage en_US op d)"
  using assms
  by (intro createBindingMessage_permitted_but_amount) (auto simp: permitted_en_US_finite)

lemma createBindingMessage_example:
  assumes "type d = transfer" and "amount d = Some (Finite 50000)"
    and "toAccount d = Some ''ACC999''"
  shows "createBindingMessage en_US op d = utf16 ''Approve transfer of 50,000 USD to ACC999''"
proof -
  have "\<lfloor>100000001 / 2 :: rat\<rfloor> = 50000000"
    using floor_divide_of_int_eq [of 100000001 2, where ?'a = rat] by simp
  moreover have "decimal 50000 = ''50000''"
    by (simp add: decimal.simps digit_char_def)
  ultimately have "en_US_finite 50000 = ''50,000''"
    by (simp add: en_US_finite_def)
  moreover have "sanitize ''ACC999'' = ''ACC999''"
    by (simp add: sanitize_def word_char_def is_letter_def is_digit_def is_whitespace_def)
  ultimately show ?thesis
    using assms by (simp add: createBindingMessage_def utf16_def)
qed

text \<open>
  C9 does not hold of \<open>createBindingMessage\<close>. The amount text is not sanitized. For
  a transfer whose amount is \<open>Infinity\<close>, in the \<open>en-US\<close> locale, the message is
  \<open>Approve transfer of\<close>, the code unit 8734 (U+221E), \<open>USD to ACC999\<close>; that
  code unit is not a letter, a digit, whitespace or one of \<open>+-_.,:#\<close>. The request
  that \<open>initiateCIBARequest\<close> returns carries this message.
\<close>

theorem infinite_amount_in_message:
  "createBindingMessage en_US ''Transfer''
      \<lparr>type = transfer, description = ''Transfer'', amount = Some Infinity,
       fromAccount = Some ''ACC001'', toAccount = Some ''ACC999'', reason = None\<rparr>
     = utf16 ''Approve transfer of '' @ [8734] @ utf16 '' USD to ACC999''
   \<and> \<not> permitted 8734
   \<and> \<not> list_all permitted
        (createBindingMessage en_US ''Transfer''
          \<lparr>type = transfer, description = ''Transfer'', amount = Some Infinity,
           fromAccount = Some ''ACC001'', toAccount = Some ''ACC999'', reason = None\<rparr>)
   \<and> bindingMessage
        (fst (initiateCIBARequest (unreachable (\<lambda>n. token_granted)) ''auth0|alice''
           ''alice@demo.local'' ''Transfer''
           \<lparr>type = transfer, description = ''Transfer'', amount = Some Infinity,
            fromAccount = Some ''ACC001'', toAccount = Some ''ACC999'', reason = None\<rparr>
           (fresh 0)))
     = Some (utf16 ''Approve transfer of '' @ [8734] @ utf16 '' USD to ACC999'')"
proof -
  let ?d = "\<lparr>type = transfer, description = ''Transfer'', amount = Some Infinity,
       fromAccount = Some ''ACC001'', toAccount = Some ''ACC999'', reason = None\<rparr>"
  have "sanitize ''ACC999'' = ''ACC999''"
    by (simp add: sanitize_def word_char_def is_letter_def is_digit_def is_whitespace_def)
  then have message: "createBindingMessage en_US ''Transfer'' ?d
      = utf16 ''Approve transfer of '' @ [8734] @ utf16 '' USD to ACC999''"
    by (simp add: createBindingMessage_def utf16_def)
  have outside: "\<not> permitted 8734"
    by (simp add: permitted_def utf16_def)
  then have "\<not> list_all permitted (createBindingMessage en_US ''Transfer'' ?d)"
    unfolding message by simp
  moreover have "bindingMessage
        (fst (initiateCIBARequest (unreachable (\<lambda>n. token_granted)) ''auth0|alice''
           ''alice@demo.local'' ''Transfer'' ?d (fresh 0)))
     = Some (createBindingMessage en_US ''Transfer'' ?d)"
    by (simp add: initiateCIBARequest_def unreachable_def Let_def)
  ultimately show ?thesis
    using message outside by simp
qed

subsection \<open>Polling\<close>

text \<open>
  C8. For an id that the store does not hold, \<open>pollCIBAResult\<close> returns \<open>expired\<close>
  and \<open>approveRequest\<close> and \<open>denyRequest\<close> return false. The three calls return
  normally and leave the store, the clock and the HTTP count as they were.
\<close>

theorem unknown_request:
  "store_get w k = None \<Longrightarrow>
     pollCIBAResult au k w = (expired, w\<lparr>poll_log := expired # poll_log w\<rparr>)
     \<and> approveRequest k w = (False, w)
     \<and> denyRequest k w = (False, w)"
  by (simp add: pollCIBAResult_def poll_request_def approveRequest_def denyRequest_def)

theorem unknown_request_witness:
  "store_get (fresh 0) ''req-9'' = None
   \<and> fst (pollCIBAResult (accepting (\<lambda>n. token_granted)) ''req-9'' (fresh 0)) = expired
   \<and> approveRequest ''req-9'' (fresh 0) = (False, fresh 0)
   \<and> denyRequest ''req-9'' (fresh 0) = (False, fresh 0)"
  using unknown_request [of "fresh 0" "''req-9''" "accepting (\<lambda>n. token_granted)"]
  by simp

text \<open>
  C2. When the clock is past \<open>expiresAt\<close> of a stored request, \<open>pollCIBAResult\<close>
  returns \<open>expired\<close>, the stored request has status \<open>expired\<close>, and no HTTP request
  has been sent, whatever the authority would have answered and whatever the status was.
\<close>

theorem poll_after_deadline:
  assumes "store_get w k = Some request" and "expiresAt request < clock w"
  shows "fst (pollCIBAResult au k w) = expired
     \<and> store_get (snd (pollCIBAResult au k w)) k = Some (request\<lparr>status := expired\<rparr>)
     \<and> http_sent (snd (pollCIBAResult au k w)) = http_sent w
     \<and> snd (pollCIBAResult au k w)
         = (store_set k (request\<lparr>status := expired\<rparr>) w)\<lparr>poll_log := expired # poll_log w\<rparr>"
  using assms by (simp add: pollCIBAResult_def poll_request_def)

theorem poll_after_deadline_witness:
  "store_get (holding (demo_request ''req-1'' pending 300000) 300001) ''req-1''
     = Some (demo_request ''req-1'' pending 300000)
   \<and> expiresAt (demo_request ''req-1'' pending 300000)
       < clock (holding (demo_request ''req-1'' pending 300000) 300001)
   \<and> fst (pollCIBAResult (accepting (\<lambda>n. token_granted)) ''req-1''
        (holding (demo_request ''req-1'' pending 300000) 300001)) = expired
   \<and> http_sent (snd (pollCIBAResult (accepting (\<lambda>n. token_granted)) ''req-1''
        (holding (demo_request ''req-1'' pending 300000) 300001))) = 0"
proof -
  let ?r = "demo_request ''req-1'' pending 300000"
  have stored: "store_get (holding ?r 300001) ''req-1'' = Some ?r"
    by (simp add: store_get_def holding_def demo_request_def)
  have late: "expiresAt ?r < clock (holding ?r 300001)"
    by (simp add: holding_def demo_request_def)
  have "http_sent (holding ?r 300001) = 0"
    by (simp add: holding_def)
  with poll_after_deadline [OF stored late, of "accepting (\<lambda>n. token_granted)"] stored late
  show ?thesis
    by simp
qed

subsection \<open>Initiation\<close>

text \<open>
  C4, as the specification states it, fails: \<open>requestedAt\<close> and \<open>expiresAt\<close> come
  from two readings of the clock. When the clock advances by a millisecond between
  them, the simulated request expires 300001 ms after \<open>requestedAt\<close>.
\<close>

theorem fallback_expiry_after_tick:
  "requestedAt (fst (initiateCIBARequest unreachable_ticking ''auth0|alice''
        ''alice@demo.local'' ''Transfer $75,000'' demo_details (fresh 0))) = 0
   \<and> expiresAt (fst (initiateCIBARequest unreachable_ticking ''auth0|alice''
        ''alice@demo.local'' ''Transfer $75,000'' demo_details (fresh 0))) = 300001"
  by (simp add: initiateCIBARequest_def unreachable_ticking_def unreachable_def Let_def
      fresh_def await_http_def tick_def)

text \<open>
  C4, amended. When the request to the authority fails, \<open>initiateCIBARequest\<close> still
  returns a request: its id starts with \<open>SIMULATED-\<close>, its status is \<open>pending\<close>, and
  it is stored under its id. It expires 300 seconds after the clock reading taken for
  \<open>expiresAt\<close>: that is \<open>requestedAt\<close> plus 300 seconds plus the time that passed
  between the two readings, so never earlier than 300 seconds after \<open>requestedAt\<close>. A
  poll of that id then answers \<open>pending\<close> without an HTTP request.
\<close>

theorem initiate_fallback:
  assumes "fst (bc_authorize au (http_sent w)) = None"
  shows "case initiateCIBARequest au uid email op d w of (request, w') \<Rightarrow>
           startsWith (authReqId request) ''SIMULATED-''
           \<and> status request = pending
           \<and> expiresAt request
               = requestedAt request + 300 * 1000 + int (snd (clock_ticks au (http_sent w)))
           \<and> requestedAt request + 300 * 1000 \<le> expiresAt request
           \<and> store_get w' (authReqId request) = Some request
           \<and> fst (pollCIBAResult au (authReqId request) w') = pending
           \<and> http_sent (snd (pollCIBAResult au (authReqId request) w')) = http_sent w'"
  using assms
  by (cases "bc_authorize au (http_sent w)"; cases "clock_ticks au (http_sent w)")
    (simp add: initiateCIBARequest_def Let_def startsWith_def pollCIBAResult_def poll_request_def
      await_http_def tick_def)

theorem initiate_fallback_witness:
  "fst (bc_authorize unreachable_ticking (http_sent (fresh 0))) = None
   \<and> authReqId (fst (initiateCIBARequest unreachable_ticking
         ''auth0|alice'' ''alice@demo.local'' ''Transfer $75,000'' demo_details (fresh 0)))
       = ''SIMULATED-0''
   \<and> status (fst (initiateCIBARequest unreachable_ticking
         ''auth0|alice'' ''alice@demo.local'' ''Transfer $75,000'' demo_details (fresh 0)))
       = pending
   \<and> expiresAt (fst (initiateCIBARequest unreachable_ticking
         ''auth0|alice'' ''alice@demo.local'' ''Transfer $75,000'' demo_details (fresh 0)))
       = requestedAt (fst (initiateCIBARequest unreachable_ticking
         ''auth0|alice'' ''alice@demo.local'' ''Transfer $75,000'' demo_details (fresh 0)))
         + 300001"
proof -
  have down: "fst (bc_authorize unreachable_ticking (http_sent (fresh 0))) = None"
    by (simp add: unreachable_ticking_def unreachable_def)
  have ticks: "snd (clock_ticks unreachable_ticking (http_sent (fresh 0))) = 1"
    by (simp add: unreachable_ticking_def)
  have "decimal 0 = ''0''"
    by (simp add: decimal.simps digit_char_def)
  then have "authReqId (fst (initiateCIBARequest unreachable_ticking
         ''auth0|alice'' ''alice@demo.local'' ''Transfer $75,000'' demo_details (fresh 0)))
       = ''SIMULATED-0''"
    by (simp add: initiateCIBARequest_def unreachable_ticking_def unreachable_def Let_def
        fresh_def await_http_def number_text_def)
  with down ticks initiate_fallback [OF down, of "''auth0|alice''" "''alice@demo.local''"
      "''Transfer $75,000''" demo_details]
  show ?thesis
    by (cases "initiateCIBARequest unreachable_ticking ''auth0|alice'' ''alice@demo.local''
          ''Transfer $75,000'' demo_details (fresh 0)") simp
qed

subsection \<open>Waiting\<close>

text \<open>
  C10. With a wait budget of zero or less, \<open>waitForApproval\<close> returns \<open>timeout\<close>
  at once: the service is exactly as before, so \<open>pollCIBAResult\<close> was not called,
  whatever the status of the request.
\<close>

theorem waitForApproval_no_budget:
  "m \<le> 0 \<Longrightarrow> waitForApproval au k (Some m) w = (wait_timeout, w)"
  by (simp add: waitForApproval_def wait_loop.simps)

theorem waitForApproval_no_budget_witness:
  "(0::int) \<le> 0
   \<and> map_option status
        (store_get (run (unreachable (\<lambda>n. token_granted))
           [demo_initiate, Approve ''SIMULATED-0''] (fresh 0)) ''SIMULATED-0'')
       = Some approved
   \<and> waitForApproval (unreachable (\<lambda>n. token_granted)) ''SIMULATED-0'' (Some 0)
         (run (unreachable (\<lambda>n. token_granted))
            [demo_initiate, Approve ''SIMULATED-0''] (fresh 0))
       = (wait_timeout,
          run (unreachable (\<lambda>n. token_granted))
            [demo_initiate, Approve ''SIMULATED-0''] (fresh 0))"
proof -
  have "map_option status
        (store_get (run (unreachable (\<lambda>n. token_granted))
           [demo_initiate, Approve ''SIMULATED-0''] (fresh 0)) ''SIMULATED-0'')
       = Some approved"
    by (simp add: demo_initiate_def initiateCIBARequest_def unreachable_def fresh_def
        await_http_def tick_def Let_def store_get_def store_set_def number_text_def decimal.simps
        digit_char_def approveRequest_def)
  with waitForApproval_no_budget [of 0 "unreachable (\<lambda>n. token_granted)" "''SIMULATED-0''"
      "run (unreachable (\<lambda>n. token_granted)) [demo_initiate, Approve ''SIMULATED-0'']
         (fresh 0)"]
  show ?thesis
    by simp
qed

lemma poll_log_poll_answered: "poll_log (snd (poll_answered reply k request w)) = poll_log w"
  by (cases reply) (simp_all add: poll_failed_def Let_def)

lemma poll_log_poll_request: "poll_log (snd (poll_request au k w)) = poll_log w"
  by (auto simp: poll_request_def poll_log_poll_answered await_http_def
      split: option.splits prod.splits)

lemma pollCIBAResult_log:
  "pollCIBAResult au k w = (s, w1) \<Longrightarrow> poll_log w1 = s # poll_log w"
  using poll_log_poll_request [of au k w]
  by (cases "poll_request au k w") (auto simp: pollCIBAResult_def)

lemma wait_loop_outcome:
  "wait_loop au k start maxWait p w = (res, w') \<Longrightarrow>
     \<exists>new. poll_log w' = new @ poll_log w
       \<and> (res = wait_timeout \<longrightarrow>
            (\<forall>s \<in> set new. s \<noteq> approved \<and> s \<noteq> denied \<and> s \<noteq> expired)
            \<and> maxWait \<le> clock w' - start)
       \<and> (res = wait_approved \<longrightarrow> new \<noteq> [] \<and> hd new = approved)
       \<and> (res = wait_denied \<longrightarrow> new \<noteq> [] \<and> hd new = denied)
       \<and> (res = wait_expired \<longrightarrow> new \<noteq> [] \<and> hd new = expired)"
proof (induction au k start maxWait p w arbitrary: res w' rule: wait_loop.induct)
  case (1 au k start maxWait p w)
  note unfold = wait_loop.simps [of au k start maxWait p w]
  show ?case
  proof (cases "clock w - start < maxWait")
    case False
    with "1.prems" have "res = wait_timeout" and "w' = w"
      by (simp_all add: unfold)
    with False show ?thesis
      by simp
  next
    case True
    obtain s w1 where poll: "pollCIBAResult au k w = (s, w1)"
      by fastforce
    have log: "poll_log w1 = s # poll_log w"
      using poll by (rule pollCIBAResult_log)
    show ?thesis
    proof (cases "s = approved \<or> s = denied \<or> s = expired")
      case True
      with "1.prems" \<open>clock w - start < maxWait\<close> poll
      have "w' = w1" and "res = (if s = approved then wait_approved
                                 else if s = denied then wait_denied else wait_expired)"
        by (auto simp: unfold)
      with True log show ?thesis
        by auto
    next
      case False
      let ?p = "next_interval w1 k p"
      from False have s: "s = pending \<or> s = timeout"
        by (cases s) simp_all
      with "1.prems" True poll
      have rec: "wait_loop au k start maxWait ?p (sleep ?p w1) = (res, w')"
        by (auto simp: unfold Let_def)
      have "\<exists>new. poll_log w' = new @ poll_log (sleep ?p w1)
          \<and> (res = wait_timeout \<longrightarrow>
               (\<forall>s \<in> set new. s \<noteq> approved \<and> s \<noteq> denied \<and> s \<noteq> expired)
               \<and> maxWait \<le> clock w' - start)
          \<and> (res = wait_approved \<longrightarrow> new \<noteq> [] \<and> hd new = approved)
          \<and> (res = wait_denied \<longrightarrow> new \<noteq> [] \<and> hd new = denied)
          \<and> (res = wait_expired \<longrightarrow> new \<noteq> [] \<and> hd new = expired)"
        using s "1.IH"(1) [OF True poll [symmetric] _ refl rec]
          "1.IH"(2) [OF True poll [symmetric] _ refl rec]
        by blast
      then obtain new where new: "poll_log w' = new @ poll_log (sleep ?p w1)"
          "res = wait_timeout \<longrightarrow>
               (\<forall>s \<in> set new. s \<noteq> approved \<and> s \<noteq> denied \<and> s \<noteq> expired)
               \<and> maxWait \<le> clock w' - start"
          "res = wait_approved \<longrightarrow> new \<noteq> [] \<and> hd new = approved"
          "res = wait_denied \<longrightarrow> new \<noteq> [] \<and> hd new = denied"
          "res = wait_expired \<longrightarrow> new \<noteq> [] \<and> hd new = expired"
        by blast
      have "poll_log w' = (new @ [s]) @ poll_log w"
        using new(1) log by (simp add: sleep_def)
      with new(2-) False show ?thesis
        by (intro exI [of _ "new @ [s]"]) auto
    qed
  qed
qed

text \<open>
  C3. \<open>waitForApproval\<close> always returns, with one of four tags. Let \<open>new\<close> be the
  results of the polls it made, latest first. It returns \<open>timeout\<close> exactly when none
  of them was \<open>approved\<close>, \<open>denied\<close> or \<open>expired\<close>, and then the time elapsed since
  the start has reached the budget. It returns \<open>expired\<close> only when its last poll
  answered \<open>expired\<close>, so the two outcomes are never confused.
\<close>

theorem waitForApproval_timeout:
  assumes "waitForApproval au k maxWaitMs w = (res, w')"
  shows "\<exists>new. poll_log w' = new @ poll_log w
     \<and> ((res = wait_timeout) = (\<forall>s \<in> set new. s \<noteq> approved \<and> s \<noteq> denied \<and> s \<noteq> expired))
     \<and> (res = wait_timeout \<longrightarrow>
          (case maxWaitMs of None \<Rightarrow> 120000 | Some m \<Rightarrow> m) \<le> clock w' - clock w)
     \<and> (res = wait_expired \<longrightarrow> new \<noteq> [] \<and> hd new = expired)
     \<and> (res = wait_approved \<longrightarrow> new \<noteq> [] \<and> hd new = approved)
     \<and> (res = wait_denied \<longrightarrow> new \<noteq> [] \<and> hd new = denied)"
proof -
  let ?budget = "case maxWaitMs of None \<Rightarrow> 120000 | Some m \<Rightarrow> m"
  from assms obtain p where "wait_loop au k (clock w) ?budget p w = (res, w')"
    by (simp add: waitForApproval_def Let_def)
  from wait_loop_outcome [OF this]
  obtain new where new: "poll_log w' = new @ poll_log w"
      "res = wait_timeout \<longrightarrow>
         (\<forall>s \<in> set new. s \<noteq> approved \<and> s \<noteq> denied \<and> s \<noteq> expired)
         \<and> ?budget \<le> clock w' - clock w"
      "res = wait_approved \<longrightarrow> new \<noteq> [] \<and> hd new = approved"
      "res = wait_denied \<longrightarrow> new \<noteq> [] \<and> hd new = denied"
      "res = wait_expired \<longrightarrow> new \<noteq> [] \<and> hd new = expired"
    by blast
  have quiet_timeout: "res = wait_timeout"
    if quiet: "\<forall>s \<in> set new. s \<noteq> approved \<and> s \<noteq> denied \<and> s \<noteq> expired"
  proof (rule ccontr)
    assume "res \<noteq> wait_timeout"
    then have "new \<noteq> [] \<and> (hd new = approved \<or> hd new = denied \<or> hd new = expired)"
      using new(3-5) by (cases res) simp_all
    then have "hd new \<in> set new \<and> (hd new = approved \<or> hd new = denied \<or> hd new = expired)"
      by simp
    with quiet show False
      by blast
  qed
  have iff: "(res = wait_timeout)
      = (\<forall>s \<in> set new. s \<noteq> approved \<and> s \<noteq> denied \<and> s \<noteq> expired)"
    using new(2) quiet_timeout by blast
  show ?thesis
  proof (intro exI [of _ new] conjI)
    show "poll_log w' = new @ poll_log w"
      by (rule new(1))
    show "(res = wait_timeout)
        = (\<forall>s \<in> set new. s \<noteq> approved \<and> s \<noteq> denied \<and> s \<noteq> expired)"
      by (rule iff)
    show "res = wait_timeout \<longrightarrow> ?budget \<le> clock w' - clock w"
      using new(2) by simp
    show "res = wait_expired \<longrightarrow> new \<noteq> [] \<and> hd new = expired"
      by (rule new(5))
    show "res = wait_approved \<longrightarrow> new \<noteq> [] \<and> hd new = approved"
      by (rule new(3))
    show "res = wait_denied \<longrightarrow> new \<noteq> [] \<and> hd new = denied"
      by (rule new(4))
  qed
qed

theorem waitForApproval_timeout_witness:
  "waitForApproval (accepting (\<lambda>n. token_error None)) ''req-1'' (Some 12000)
       (holding (demo_request ''req-1'' pending 300000) 0)
     = (wait_timeout,
        (holding (demo_request ''req-1'' pending 300000) 15000)
          \<lparr>http_sent := 3, poll_log := [pending, pending, pending]\<rparr>)
   \<and> (\<exists>new. [pending, pending, pending] = new @ []
        \<and> (\<forall>s \<in> set new. s \<noteq> approved \<and> s \<noteq> denied \<and> s \<noteq> expired))"
proof -
  have run: "waitForApproval (accepting (\<lambda>n. token_error None)) ''req-1'' (Some 12000)
       (holding (demo_request ''req-1'' pending 300000) 0)
     = (wait_timeout,
        (holding (demo_request ''req-1'' pending 300000) 15000)
          \<lparr>http_sent := 3, poll_log := [pending, pending, pending]\<rparr>)"
    by (simp add: holding_def demo_request_def accepting_def await_http_def store_get_def
        store_set_def waitForApproval_def wait_loop.simps next_interval_def sleep_def
        timer_delay_def pollCIBAResult_def poll_request_def poll_failed_def startsWith_def
        Let_def)
  from waitForApproval_timeout [OF run] run show ?thesis
    by (simp add: holding_def)
qed

subsection \<open>Backing off\<close>

lemma map_of_sweep:
  "map_of (fst (sweep uid now st)) k =
     map_option (\<lambda>r. if userId r = uid \<and> status r = pending \<and> now > expiresAt r
                      then r\<lparr>status := expired\<rparr> else r) (map_of st k)"
  by (induction st) (auto split: prod.splits)

lemma store_get_getPendingRequestsForUser:
  "store_get (snd (getPendingRequestsForUser uid w)) k =
     map_option (\<lambda>r. if userId r = uid \<and> status r = pending \<and> clock w > expiresAt r
                      then r\<lparr>status := expired\<rparr> else r) (store_get w k)"
  using map_of_sweep [of uid "clock w" "pendingRequests w" k]
  by (cases "sweep uid (clock w) (pendingRequests w)")
    (simp add: getPendingRequestsForUser_def store_get_def)

lemma poll_slow_down:
  assumes "store_get w k = Some request" and "slow_down_received au k w"
  shows "pollCIBAResult au k w =
     (pending,
      (store_set k (request\<lparr>interval := Some (num_or (interval request) 5 + 5)\<rparr>)
         (await_http (snd (oauth_token au (http_sent w))) w))
        \<lparr>poll_log := pending # poll_log w\<rparr>)"
  using assms
  by (cases "oauth_token au (http_sent w)")
    (simp add: slow_down_received_def pollCIBAResult_def poll_request_def poll_failed_def
      Let_def await_http_def)

lemma interval_poll_answered:
  "store_get w k = Some request \<Longrightarrow> reply \<noteq> token_error (Some ''slow_down'') \<Longrightarrow>
     map_option interval (store_get (snd (poll_answered reply k request w)) k')
       = map_option interval (store_get w k')"
  by (cases reply) (auto simp: poll_failed_def)

lemma interval_poll_other:
  assumes "\<not> slow_down_received au k w"
  shows "map_option interval (store_get (snd (pollCIBAResult au k w)) k')
     = map_option interval (store_get w k')"
proof (cases "store_get w k")
  case None
  then show ?thesis
    by (simp add: pollCIBAResult_def poll_request_def)
next
  case (Some request)
  obtain reply latency where reply: "oauth_token au (http_sent w) = (reply, latency)"
    by fastforce
  have store: "store_get (await_http latency w) k = Some request"
    using Some by simp
  show ?thesis
  proof (cases "clock w > expiresAt request \<or> startsWith k ''SIMULATED-''")
    case True
    with Some show ?thesis
      by (auto simp: pollCIBAResult_def poll_request_def)
  next
    case False
    with assms Some reply have "reply \<noteq> token_error (Some ''slow_down'')"
      by (auto simp: slow_down_received_def)
    from interval_poll_answered [OF store this, of k'] False Some reply show ?thesis
      by (cases "poll_answered reply k request (await_http latency w)")
        (simp add: pollCIBAResult_def poll_request_def)
  qed
qed

text \<open>
  C7. When a poll reaches the authority and is answered \<open>slow_down\<close>, it returns
  \<open>pending\<close> and stores the request with its interval (or 5 when it has none)
  raised by 5 and everything else, the status included, as it was. A loop iteration
  of \<open>waitForApproval\<close> that meets this answer, its current interval not being
  negative, sleeps for the larger of its current interval and the raised one, and keeps
  it for the iterations that follow. No other poll and no other operation on stored
  requests changes the interval of any request.
\<close>

theorem slow_down_backoff:
  "(slow_down_received au k w \<and> store_get w k = Some request \<longrightarrow>
      fst (pollCIBAResult au k w) = pending
      \<and> store_get (snd (pollCIBAResult au k w)) k
          = Some (request\<lparr>interval := Some (num_or (interval request) 5 + 5)\<rparr>)
      \<and> (clock w - start < maxWait \<and> 0 \<le> p \<longrightarrow>
           wait_loop au k start maxWait p w
             = wait_loop au k start maxWait
                 (max p ((num_or (interval request) 5 + 5) * 1000))
                 (sleep (max p ((num_or (interval request) 5 + 5) * 1000))
                    (snd (pollCIBAResult au k w)))))
   \<and> (\<not> slow_down_received au k w \<longrightarrow>
        map_option interval (store_get (snd (pollCIBAResult au k w)) k')
          = map_option interval (store_get w k'))
   \<and> map_option interval (store_get (snd (approveRequest k w)) k')
        = map_option interval (store_get w k')
   \<and> map_option interval (store_get (snd (denyRequest k w)) k')
        = map_option interval (store_get w k')
   \<and> map_option interval (store_get (snd (getPendingRequestsForUser uid w)) k')
        = map_option interval (store_get w k')"
proof (intro conjI impI)
  assume a: "slow_down_received au k w \<and> store_get w k = Some request"
  let ?n = "num_or (interval request) 5 + 5"
  let ?w1 = "snd (pollCIBAResult au k w)"
  from a have poll: "pollCIBAResult au k w =
     (pending,
      (store_set k (request\<lparr>interval := Some ?n\<rparr>)
         (await_http (snd (oauth_token au (http_sent w))) w))
        \<lparr>poll_log := pending # poll_log w\<rparr>)"
    by (simp add: poll_slow_down)
  show "fst (pollCIBAResult au k w) = pending"
    using poll by simp
  show stored: "store_get ?w1 k = Some (request\<lparr>interval := Some ?n\<rparr>)"
    using poll by simp
  assume b: "clock w - start < maxWait \<and> 0 \<le> p"
  have adopted: "next_interval ?w1 k p = max p (?n * 1000)"
    using stored b by (auto simp: next_interval_def)
  obtain w1 where w1: "pollCIBAResult au k w = (pending, w1)"
    using poll by simp
  with b have "wait_loop au k start maxWait p w
      = wait_loop au k start maxWait (next_interval w1 k p) (sleep (next_interval w1 k p) w1)"
    by (simp add: wait_loop.simps [of au k start maxWait p w] Let_def)
  moreover have "?w1 = w1"
    using w1 by simp
  ultimately show "wait_loop au k start maxWait p w
      = wait_loop au k start maxWait (max p (?n * 1000)) (sleep (max p (?n * 1000)) ?w1)"
    using adopted by simp
next
  assume "\<not> slow_down_received au k w"
  then show "map_option interval (store_get (snd (pollCIBAResult au k w)) k')
      = map_option interval (store_get w k')"
    by (rule interval_poll_other)
next
  show "map_option interval (store_get (snd (approveRequest k w)) k')
      = map_option interval (store_get w k')"
    by (auto simp: approveRequest_def split: option.splits)
  show "map_option interval (store_get (snd (denyRequest k w)) k')
      = map_option interval (store_get w k')"
    by (auto simp: denyRequest_def split: option.splits)
  show "map_option interval (store_get (snd (getPendingRequestsForUser uid w)) k')
      = map_option interval (store_get w k')"
    by (cases "store_get w k'") (simp_all add: store_get_getPendingRequestsForUser)
qed

theorem slow_down_backoff_witness:
  "slow_down_received congested ''req-1'' (holding (demo_request ''req-1'' pending 300000) 0)
   \<and> store_get (holding (demo_request ''req-1'' pending 300000) 0) ''req-1''
       = Some (demo_request ''req-1'' pending 300000)
   \<and> fst (pollCIBAResult congested ''req-1''
         (holding (demo_request ''req-1'' pending 300000) 0)) = pending
   \<and> store_get (snd (pollCIBAResult congested ''req-1''
         (holding (demo_request ''req-1'' pending 300000) 0))) ''req-1''
       = Some ((demo_request ''req-1'' pending 300000)\<lparr>interval := Some 10\<rparr>)
   \<and> waitForApproval congested ''req-1'' None
         (holding (demo_request ''req-1'' pending 300000) 0)
       = (wait_approved,
          \<lparr>pendingRequests =
             [(''req-1'', (demo_request ''req-1'' approved 300000)
                 \<lparr>respondedAt := Some 40000, interval := Some 15\<rparr>)],
           clock = 40000, http_sent = 4,
           poll_log = [approved, pending, pending, pending]\<rparr>)"
proof -
  let ?r = "demo_request ''req-1'' pending 300000"
  let ?w = "holding ?r 0"
  have stored: "store_get ?w ''req-1'' = Some ?r"
    by (simp add: store_get_def holding_def demo_request_def)
  have slow: "slow_down_received congested ''req-1'' ?w"
    by (simp add: slow_down_received_def stored)
      (simp add: holding_def demo_request_def congested_def accepting_def startsWith_def)
  have "num_or (interval ?r) 5 + 5 = 10"
    by (simp add: demo_request_def)
  with slow_down_backoff [of congested "''req-1''" ?w ?r 0 120000 5000] slow stored
  have first: "fst (pollCIBAResult congested ''req-1'' ?w) = pending
      \<and> store_get (snd (pollCIBAResult congested ''req-1'' ?w)) ''req-1''
          = Some (?r\<lparr>interval := Some 10\<rparr>)"
    by simp
  have "waitForApproval congested ''req-1'' None ?w
       = (wait_approved,
          \<lparr>pendingRequests =
             [(''req-1'', (demo_request ''req-1'' approved 300000)
                 \<lparr>respondedAt := Some 40000, interval := Some 15\<rparr>)],
           clock = 40000, http_sent = 4,
           poll_log = [approved, pending, pending, pending]\<rparr>)"
    by (simp add: holding_def demo_request_def congested_def accepting_def await_http_def
        store_get_def store_set_def waitForApproval_def wait_loop.simps next_interval_def
        sleep_def timer_delay_def pollCIBAResult_def poll_request_def poll_failed_def
        startsWith_def Let_def)
  with first slow stored show ?thesis
    by simp
qed

subsection \<open>The response timestamp\<close>

lemma list_all_update:
  "list_all (\<lambda>(k, r). P r) al \<Longrightarrow> P v \<Longrightarrow> list_all (\<lambda>(k, r). P r) (AList.update k' v al)"
  by (induction al) auto

lemma store_ok_store_set: "store_ok w \<Longrightarrow> responded_ok r \<Longrightarrow> store_ok (store_set k r w)"
  by (simp add: store_ok_def store_set_def list_all_update)

lemma store_ok_get: "store_ok w \<Longrightarrow> store_get w k = Some r \<Longrightarrow> responded_ok r"
  by (auto simp: store_ok_def store_get_def list_all_iff dest: map_of_SomeD)

lemma store_ok_frame [simp]:
  "store_ok (w\<lparr>poll_log := l\<rparr>) = store_ok w"
  "store_ok (w\<lparr>clock := t\<rparr>) = store_ok w"
  "store_ok (await_http latency w) = store_ok w"
  "store_ok (sleep ms w) = store_ok w"
  "store_ok (tick n w) = store_ok w"
  by (simp_all add: store_ok_def await_http_def sleep_def tick_def)
lemma store_ok_initiate:
  assumes "store_ok w"
  shows "store_ok (snd (initiateCIBARequest au uid email op d w))"
proof -
  obtain reply latency where reply: "bc_authorize au (http_sent w) = (reply, latency)"
    by fastforce
  obtain first_tick second_tick
    where ticks: "clock_ticks au (http_sent w) = (first_tick, second_tick)"
    by fastforce
  have "store_ok (tick first_tick (await_http latency w))"
    and "store_ok (tick second_tick (tick first_tick (await_http latency w)))"
    using assms by simp_all
  then show ?thesis
    using reply ticks
    by (cases reply)
      (simp_all add: initiateCIBARequest_def Let_def store_ok_store_set responded_ok_def)
qed

lemma store_ok_poll_answered:
  assumes "store_ok w" and "responded_ok request"
  shows "store_ok (snd (poll_answered reply k request w))"
proof (cases reply)
  case token_granted
  with assms show ?thesis
    by (simp add: store_ok_store_set responded_ok_def)
next
  case token_absent
  with assms show ?thesis
    by simp
next
  case (token_error errorCode)
  have "responded_ok (request\<lparr>interval := i\<rparr>)" for i
    using assms(2) by (simp add: responded_ok_def)
  moreover have "responded_ok (request\<lparr>status := denied, respondedAt := Some t\<rparr>)" for t
    by (simp add: responded_ok_def)
  moreover have "responded_ok (request\<lparr>status := expired\<rparr>)"
    by (simp add: responded_ok_def)
  ultimately show ?thesis
    using assms(1) token_error
    by (simp add: poll_failed_def Let_def store_ok_store_set)
qed

lemma store_ok_poll_request:
  assumes "store_ok w"
  shows "store_ok (snd (poll_request au k w))"
proof (cases "store_get w k")
  case None
  with assms show ?thesis
    by (simp add: poll_request_def)
next
  case (Some request)
  with assms have ok: "responded_ok request"
    by (auto dest: store_ok_get)
  then have late: "responded_ok (request\<lparr>status := expired\<rparr>)"
    by (simp add: responded_ok_def)
  obtain reply latency where reply: "oauth_token au (http_sent w) = (reply, latency)"
    by fastforce
  have "store_ok (snd (poll_answered reply k request (await_http latency w)))"
    using assms ok by (simp add: store_ok_poll_answered)
  with assms Some late reply show ?thesis
    by (simp add: poll_request_def store_ok_store_set)
qed

lemma store_ok_pollCIBAResult:
  "store_ok w \<Longrightarrow> store_ok (snd (pollCIBAResult au k w))"
  using store_ok_poll_request [of w au k]
  by (cases "poll_request au k w") (simp add: pollCIBAResult_def)

lemma store_ok_approveRequest: "store_ok w \<Longrightarrow> store_ok (snd (approveRequest k w))"
  by (cases "store_get w k")
    (simp_all add: approveRequest_def responded_ok_def store_ok_store_set)

lemma store_ok_denyRequest: "store_ok w \<Longrightarrow> store_ok (snd (denyRequest k w))"
  by (cases "store_get w k")
    (simp_all add: denyRequest_def responded_ok_def store_ok_store_set)

lemma list_all_sweep:
  "list_all (\<lambda>(k, r). responded_ok r) st \<Longrightarrow>
     list_all (\<lambda>(k, r). responded_ok r) (fst (sweep uid now st))"
  by (induction st) (auto simp: responded_ok_def split: prod.splits)

lemma store_ok_getPendingRequestsForUser:
  "store_ok w \<Longrightarrow> store_ok (snd (getPendingRequestsForUser uid w))"
  using list_all_sweep [of "pendingRequests w" uid "clock w"]
  by (cases "sweep uid (clock w) (pendingRequests w)")
    (simp add: getPendingRequestsForUser_def store_ok_def)

lemma store_ok_wait_loop:
  "store_ok w \<Longrightarrow> store_ok (snd (wait_loop au k start maxWait p w))"
proof (induction au k start maxWait p w rule: wait_loop.induct)
  case (1 au k start maxWait p w)
  note unfold = wait_loop.simps [of au k start maxWait p w]
  show ?case
  proof (cases "clock w - start < maxWait")
    case False
    with "1.prems" show ?thesis
      by (simp add: unfold)
  next
    case True
    obtain s w1 where poll: "pollCIBAResult au k w = (s, w1)"
      by fastforce
    have ok: "store_ok w1"
      using store_ok_pollCIBAResult [OF "1.prems", of au k] poll by simp
    then have slept: "store_ok (sleep (next_interval w1 k p) w1)"
      by simp
    show ?thesis
    proof (cases s)
      case pending
      with True poll "1.IH"(1) [OF True poll [symmetric] _ refl slept] show ?thesis
        by (simp add: unfold Let_def)
    next
      case timeout
      with True poll "1.IH"(2) [OF True poll [symmetric] _ refl slept] show ?thesis
        by (simp add: unfold Let_def)
    qed (use True poll ok in \<open>simp_all add: unfold\<close>)
  qed
qed

lemma store_ok_perform: "store_ok w \<Longrightarrow> store_ok (perform au a w)"
  by (cases a)
    (simp_all add: store_ok_initiate store_ok_pollCIBAResult store_ok_approveRequest
      store_ok_denyRequest store_ok_getPendingRequestsForUser store_ok_wait_loop
      waitForApproval_def Let_def)

text \<open>
  C6, as the specification states it, fails: a request that is polled after its
  deadline becomes \<open>expired\<close> and has no response timestamp.
\<close>

theorem expired_without_timestamp:
  "map_option status
      (store_get (run (unreachable (\<lambda>n. token_granted))
          [demo_initiate, Elapse 300001, Poll ''SIMULATED-0''] (fresh 0)) ''SIMULATED-0'')
     = Some expired
   \<and> map_option respondedAt
      (store_get (run (unreachable (\<lambda>n. token_granted))
          [demo_initiate, Elapse 300001, Poll ''SIMULATED-0''] (fresh 0)) ''SIMULATED-0'')
     = Some None
   \<and> map_option responded_iff_resolved
      (store_get (run (unreachable (\<lambda>n. token_granted))
          [demo_initiate, Elapse 300001, Poll ''SIMULATED-0''] (fresh 0)) ''SIMULATED-0'')
     = Some False"
  by (simp add: demo_initiate_def initiateCIBARequest_def unreachable_def fresh_def
      await_http_def tick_def Let_def store_get_def store_set_def number_text_def decimal.simps
      digit_char_def pollCIBAResult_def poll_request_def startsWith_def
      responded_iff_resolved_def)

text \<open>
  C6, amended. In a service that has just been constructed, and after any sequence of
  calls from there (or from any state in which this already holds), every stored
  request has no \<open>respondedAt\<close> while its status is \<open>pending\<close> and has one when its
  status is \<open>approved\<close> or \<open>denied\<close>. Nothing is said about \<open>expired\<close> requests.
\<close>

theorem respondedAt_invariant:
  "store_ok (fresh now) \<and> (store_ok w \<longrightarrow> store_ok (run au as w))"
proof
  show "store_ok (fresh now)"
    by (simp add: store_ok_def fresh_def)
  show "store_ok w \<longrightarrow> store_ok (run au as w)"
    by (induction as arbitrary: w) (simp_all add: store_ok_perform)
qed

theorem respondedAt_invariant_witness:
  "store_ok (fresh 0)
   \<and> store_ok (run (unreachable (\<lambda>n. token_granted))
        [demo_initiate, Approve ''SIMULATED-0'', Elapse 300001, Poll ''SIMULATED-0'']
        (fresh 0))
   \<and> map_option respondedAt
        (store_get (run (unreachable (\<lambda>n. token_granted))
           [demo_initiate, Approve ''SIMULATED-0''] (fresh 0)) ''SIMULATED-0'')
       = Some (Some 0)"
proof -
  have "map_option respondedAt
        (store_get (run (unreachable (\<lambda>n. token_granted))
           [demo_initiate, Approve ''SIMULATED-0''] (fresh 0)) ''SIMULATED-0'')
       = Some (Some 0)"
    by (simp add: demo_initiate_def initiateCIBARequest_def unreachable_def fresh_def
        await_http_def tick_def Let_def store_get_def store_set_def number_text_def decimal.simps
        digit_char_def approveRequest_def)
  with respondedAt_invariant [of 0 "fresh 0" "unreachable (\<lambda>n. token_granted)"
      "[demo_initiate, Approve ''SIMULATED-0'', Elapse 300001, Poll ''SIMULATED-0'']"]
  show ?thesis
    by simp
qed

subsection \<open>Resolved requests\<close>

lemma override_after_resolution:
  "store_get w k = Some request \<Longrightarrow> status request \<noteq> pending \<Longrightarrow>
     approveRequest k w = (False, w) \<and> denyRequest k w = (False, w)"
  by (simp add: approveRequest_def denyRequest_def)

lemma poll_simulated_before_deadline:
  "store_get w k = Some request \<Longrightarrow> \<not> expiresAt request < clock w \<Longrightarrow>
     startsWith k ''SIMULATED-'' \<Longrightarrow>
     pollCIBAResult au k w = (status request, w\<lparr>poll_log := status request # poll_log w\<rparr>)"
  by (simp add: pollCIBAResult_def poll_request_def)

text \<open>
  C1 does not hold of \<open>pollCIBAResult\<close>. The authority is unreachable, so the
  request is simulated; it is approved through \<open>approveRequest\<close>, and its status is
  \<open>approved\<close>. A poll after the deadline then answers \<open>expired\<close> and overwrites the
  status with \<open>expired\<close>. The overrides refuse a resolved request, as C1 says, and a
  poll of a simulated request before its deadline leaves it as it is.
\<close>

theorem approved_then_expired:
  "map_option status
      (store_get (run (unreachable (\<lambda>n. token_granted))
          [demo_initiate, Approve ''SIMULATED-0''] (fresh 0)) ''SIMULATED-0'')
     = Some approved
   \<and> fst (pollCIBAResult (unreachable (\<lambda>n. token_granted)) ''SIMULATED-0''
        (run (unreachable (\<lambda>n. token_granted))
          [demo_initiate, Approve ''SIMULATED-0'', Elapse 300001] (fresh 0)))
     = expired
   \<and> map_option status
      (store_get (run (unreachable (\<lambda>n. token_granted))
          [demo_initiate, Approve ''SIMULATED-0'', Elapse 300001, Poll ''SIMULATED-0'']
          (fresh 0)) ''SIMULATED-0'')
     = Some expired"
  by (simp add: demo_initiate_def initiateCIBARequest_def unreachable_def fresh_def
      await_http_def tick_def Let_def store_get_def store_set_def number_text_def decimal.simps
      digit_char_def approveRequest_def pollCIBAResult_def poll_request_def startsWith_def)

end
